theory Spec2Isabelle
  imports Main
begin

section \<open>JavaScript values\<close>

text \<open>
  The values that reach the transport from its caller: the message, the metadata and the
  callback of \<open>log\<close>. A function is identified by its name; an object is the list of its
  own enumerable properties, in insertion order.
\<close>

datatype jsval =
    JUndefined
  | JNull
  | JBool bool
  | JNum int
  | JStr string
  | JObj "(string \<times> jsval) list"
  | JFun string

text \<open>JavaScript's ToBoolean, as used by \<open>!x\<close>, \<open>x || y\<close> and \<open>if (x)\<close>.\<close>

fun truthy :: "jsval \<Rightarrow> bool" where
  "truthy JUndefined = False"
| "truthy JNull = False"
| "truthy (JBool b) = b"
| "truthy (JNum n) = (n \<noteq> 0)"
| "truthy (JStr s) = (s \<noteq> [])"
| "truthy (JObj kvs) = True"
| "truthy (JFun f) = True"

text \<open>\<open>typeof v === 'function'\<close> and \<open>typeof v === 'string'\<close>.\<close>

fun is_function :: "jsval \<Rightarrow> bool" where
  "is_function (JFun f) = True"
| "is_function v = False"

fun is_string :: "jsval \<Rightarrow> bool" where
  "is_string (JStr s) = True"
| "is_string v = False"

text \<open>Decimal text of a number, as string concatenation produces it for integers.\<close>

fun dec :: "nat \<Rightarrow> string" where
  "dec n = (if n < 10 then [''0123456789'' ! n] else dec (n div 10) @ [''0123456789'' ! (n mod 10)])"

declare dec.simps [simp del]

definition show_int :: "int \<Rightarrow> string" where
  "show_int i = (if i < 0 then CHR ''-'' # dec (nat (- i)) else dec (nat i))"

text \<open>
  ToString, as \<open>+\<close> applies it to a non-number operand. The text of a function is that of a
  built-in one: the only functions converted here are the members of \<open>Object.prototype\<close>.
\<close>

fun to_text :: "jsval \<Rightarrow> string" where
  "to_text JUndefined = ''undefined''"
| "to_text JNull = ''null''"
| "to_text (JBool b) = (if b then ''true'' else ''false'')"
| "to_text (JNum n) = show_int n"
| "to_text (JStr s) = s"
| "to_text (JObj kvs) = ''[object Object]''"
| "to_text (JFun f) = ''function '' @ f @ ''() { [native code] }''"

text \<open>\<open>obj[k] = v\<close>: on an object the property is replaced in place or added last; on a
  primitive the assignment is ignored (the file is not in strict mode). The properties of
  a function object are not represented.\<close>

fun put :: "string \<Rightarrow> jsval \<Rightarrow> (string \<times> jsval) list \<Rightarrow> (string \<times> jsval) list" where
  "put k v [] = [(k, v)]"
| "put k v (p # ps) = (if fst p = k then (k, v) # ps else p # put k v ps)"

fun set_prop :: "jsval \<Rightarrow> string \<Rightarrow> jsval \<Rightarrow> jsval" where
  "set_prop (JObj kvs) k v = JObj (put k v kvs)"
| "set_prop obj k v = obj"

section \<open>The environment\<close>

text \<open>
  What the module reads from Node.js: \<open>os.hostname()\<close>, \<open>process.pid\<close>, and the library
  functions \<open>JSON.stringify\<close> (its result as concatenated into a string) and
  \<open>util.inspect\<close>. The current time, the result of \<open>tls.connect\<close> and the stream's events
  are arguments of the operations that use them.
\<close>

record env =
  os_hostname :: string
  process_pid :: nat
  JSON_stringify :: "jsval \<Rightarrow> string"
  util_inspect :: "jsval \<Rightarrow> string"

datatype exn = Error string | TypeError string

text \<open>The socket returned by \<open>tls.connect\<close>; the transport reads its \<open>writable\<close> flag.\<close>

datatype stream = Stream (writable: bool)

datatype event = ErrorEvent exn | ConnectEvent string

section \<open>Options and the transport object\<close>

text \<open>
  The options object, typed as the constructor's documentation types it. \<open>None\<close> is an
  absent property. Within its type a number is falsy when it is 0, a string when it is
  empty, a boolean when it is false; an array and a function are never falsy.
\<close>

record options =
  opt_level :: "string option"
  opt_host :: "string option"
  opt_port :: "int option"
  opt_token :: "string option"
  opt_tags :: "string list option"
  opt_hostname :: "string option"
  opt_pid :: "string option"
  opt_program :: "string option"
  opt_logFormat :: "(jsval \<Rightarrow> jsval \<Rightarrow> string) option"
  opt_attemptsBeforeDecay :: "int option"
  opt_maximumAttempts :: "int option"
  opt_connectionDelay :: "int option"
  opt_handleExceptions :: "bool option"
  opt_maxDelayBetweenReconnection :: "int option"
  opt_inlineMeta :: "bool option"

text \<open>The empty object \<open>{}\<close> that replaces a missing options argument.\<close>

definition no_options :: options where
  "no_options =
     \<lparr> opt_level = None, opt_host = None, opt_port = None, opt_token = None,
       opt_tags = None, opt_hostname = None, opt_pid = None, opt_program = None,
       opt_logFormat = None, opt_attemptsBeforeDecay = None, opt_maximumAttempts = None,
       opt_connectionDelay = None, opt_handleExceptions = None,
       opt_maxDelayBetweenReconnection = None, opt_inlineMeta = None \<rparr>"

text \<open>\<open>options.x || d\<close> at each type.\<close>

definition or_str :: "string option \<Rightarrow> string \<Rightarrow> string" where
  "or_str v d = (case v of None \<Rightarrow> d | Some s \<Rightarrow> if s = [] then d else s)"

definition or_num :: "int option \<Rightarrow> int \<Rightarrow> int" where
  "or_num v d = (case v of None \<Rightarrow> d | Some n \<Rightarrow> if n = 0 then d else n)"

definition or_bool :: "bool option \<Rightarrow> bool \<Rightarrow> bool" where
  "or_bool v d = (case v of None \<Rightarrow> d | Some b \<Rightarrow> if b then b else d)"

definition or_obj :: "'a option \<Rightarrow> 'a \<Rightarrow> 'a" where
  "or_obj v d = (case v of None \<Rightarrow> d | Some x \<Rightarrow> x)"

text \<open>The values that \<open>options.x || d\<close> replaces by \<open>d\<close>: an absent property and the falsy
  value of the type.\<close>

definition falsy_str :: "string option \<Rightarrow> bool" where
  "falsy_str v = (case v of None \<Rightarrow> True | Some s \<Rightarrow> s = [])"

definition falsy_num :: "int option \<Rightarrow> bool" where
  "falsy_num v = (case v of None \<Rightarrow> True | Some n \<Rightarrow> n = 0)"

definition falsy_bool :: "bool option \<Rightarrow> bool" where
  "falsy_bool v = (case v of None \<Rightarrow> True | Some b \<Rightarrow> \<not> b)"

text \<open>
  The transport (\<open>self\<close>). After the fields of the source come the state it inherits from
  \<open>EventEmitter\<close>, whether an \<open>error\<close> listener is registered, and the traces of its
  effects: the events passed to \<open>self.emit\<close>, the chunks passed to \<open>stream.write\<close>, the
  calls of \<open>tls.connect\<close> (port and host), the delays of the pending \<open>setTimeout\<close>
  callbacks, and the calls of callbacks (function and arguments).
\<close>

record transport =
  name :: string
  level :: string
  host :: string
  port :: int
  token :: "string option"
  tags :: "string list"
  hostname :: string
  pid :: string
  program :: string
  logFormat :: "jsval \<Rightarrow> jsval \<Rightarrow> string"
  attemptsBeforeDecay :: int
  maximumAttempts :: int
  connectionDelay :: int
  handleExceptions :: bool
  maxDelayBetweenReconnection :: int
  inlineMeta :: bool
  currentRetries :: int
  totalRetries :: int
  buffer :: string
  loggingEnabled :: bool
  structuredData :: string
  stream :: "stream option"
  listening :: bool
  emitted :: "event list"
  wire :: "string list"
  connects :: "(int \<times> string) list"
  timers :: "int list"
  calls :: "(string \<times> jsval list) list"

section \<open>The constructor\<close>

text \<open>The default \<open>logFormat\<close> (index.js, lines 75-79).\<close>

definition default_logFormat :: "(jsval \<Rightarrow> string) \<Rightarrow> jsval \<Rightarrow> jsval \<Rightarrow> string" where
  "default_logFormat stringify message meta =
     (let meta = (if \<not> truthy meta then JObj [] else meta);
          meta = (if truthy message then set_prop meta ''log_msg'' message else meta)
      in stringify meta)"

text \<open>Lines 50-102: the fields, each option with its default. \<open>self.pid\<close> holds the text
  that the record concatenates, a default \<open>process.pid\<close> in decimal. A new object has no
  listener.\<close>

definition initial :: "env \<Rightarrow> options \<Rightarrow> transport" where
  "initial e options =
     \<lparr> name = ''Loggly'',
       level = or_str (opt_level options) ''info'',
       host = or_str (opt_host options) ''logs-01.loggly.com'',
       port = or_num (opt_port options) 6514,
       token = opt_token options,
       tags = or_obj (opt_tags options) [],
       hostname = or_str (opt_hostname options) (os_hostname e),
       pid = or_str (opt_pid options) (dec (process_pid e)),
       program = or_str (opt_program options) ''default'',
       logFormat = or_obj (opt_logFormat options) (default_logFormat (JSON_stringify e)),
       attemptsBeforeDecay = or_num (opt_attemptsBeforeDecay options) 5,
       maximumAttempts = or_num (opt_maximumAttempts options) 25,
       connectionDelay = or_num (opt_connectionDelay options) 1000,
       handleExceptions = or_bool (opt_handleExceptions options) False,
       maxDelayBetweenReconnection = or_num (opt_maxDelayBetweenReconnection options) 60000,
       inlineMeta = or_bool (opt_inlineMeta options) False,
       currentRetries = 0,
       totalRetries = 0,
       buffer = [],
       loggingEnabled = True,
       structuredData = [],
       stream = None,
       listening = False,
       emitted = [], wire = [], connects = [], timers = [], calls = [] \<rparr>"

text \<open>
  \<open>self.emit\<close>, inherited from \<open>EventEmitter\<close>: the listeners are called; an \<open>error\<close> event
  that has no listener is thrown instead. What a listener does is the caller's code and
  is not represented.
\<close>

definition emit :: "event \<Rightarrow> transport \<Rightarrow> transport \<times> exn option" where
  "emit ev self =
     (let self = self\<lparr>emitted := emitted self @ [ev]\<rparr>
      in case ev of
           ErrorEvent err \<Rightarrow> if listening self then (self, None) else (self, Some err)
         | ConnectEvent m \<Rightarrow> (self, None))"

text \<open>The caller's \<open>transport.on('error', f)\<close>.\<close>

definition addErrorListener :: "transport \<Rightarrow> transport" where
  "addErrorListener self = self\<lparr>listening := True\<rparr>"

text \<open>Lines 110-114: the structured data, the token and one \<open>tag="..."\<close> for each tag.\<close>

definition structured :: "string option \<Rightarrow> string list \<Rightarrow> string" where
  "structured tok tgs =
     foldl (\<lambda>sd tag. sd @ '' tag='' @ [CHR 0x22] @ tag @ [CHR 0x22])
       (''['' @ (case tok of None \<Rightarrow> ''undefined'' | Some t \<Rightarrow> t) @ ''@41058'') tgs @ '']''"

text \<open>
  \<open>connectStream\<close> (lines 125-159). The argument is what \<open>tls.connect\<close> does: \<open>Inl e\<close> when
  it throws \<open>e\<close>, \<open>Inr st\<close> when it returns the socket \<open>st\<close>. The result is the transport
  with the exception that leaves the function, if any. The two handlers registered on the
  socket are \<open>onStreamError\<close> and \<open>onStreamEnd\<close> below.
\<close>

definition connectStream :: "exn + stream \<Rightarrow> transport \<Rightarrow> transport \<times> exn option" where
  "connectStream r self =
     (let self = self\<lparr>connects := connects self @ [(port self, host self)]\<rparr>
      in case r of
           Inl e \<Rightarrow> (self, Some e)
         | Inr st \<Rightarrow> (self\<lparr>stream := Some st\<rparr>, None))"

text \<open>The constructor (lines 46-123). \<open>Inl\<close> is the exception it throws: the missing
  token, or what \<open>self.emit('error', e)\<close> throws in the \<open>catch\<close> block.\<close>

definition Loggly :: "env \<Rightarrow> exn + stream \<Rightarrow> options option \<Rightarrow> exn + transport" where
  "Loggly e r options =
     (let options = (case options of None \<Rightarrow> no_options | Some opts \<Rightarrow> opts);
          self = initial e options
      in if (case token self of None \<Rightarrow> True | Some t \<Rightarrow> t = [])
         then Inl (Error ''Missing required parameters: token'')
         else
           (let self = self\<lparr>structuredData := structured (token self) (tags self)\<rparr>
            in case connectStream r self of
                 (self, None) \<Rightarrow> Inr self
               | (self, Some ex) \<Rightarrow>
                   (case emit (ErrorEvent ex) self of
                      (self, None) \<Rightarrow> Inr self
                    | (self, Some ex') \<Rightarrow> Inl ex')))"

section \<open>Reconnection\<close>

text \<open>The \<open>error\<close> handler of the socket (lines 128-153): it emits the error and then
  schedules the retry after the current \<open>connectionDelay\<close>. When \<open>emit\<close> throws, the
  handler is left before \<open>setTimeout\<close>.\<close>

definition onStreamError :: "exn \<Rightarrow> transport \<Rightarrow> transport \<times> exn option" where
  "onStreamError err self =
     (case emit (ErrorEvent err) self of
        (self, Some ex) \<Rightarrow> (self, Some ex)
      | (self, None) \<Rightarrow> (self\<lparr>timers := timers self @ [connectionDelay self]\<rparr>, None))"

text \<open>Lines 134-142 of the scheduled callback: the counters and the decay.\<close>

definition backoff :: "transport \<Rightarrow> transport" where
  "backoff self =
     (let self = self\<lparr>currentRetries := currentRetries self + 1\<rparr>;
          self = self\<lparr>totalRetries := totalRetries self + 1\<rparr>
      in if connectionDelay self < maxDelayBetweenReconnection self
            \<and> currentRetries self \<ge> attemptsBeforeDecay self
         then (let self = self\<lparr>connectionDelay := connectionDelay self * 2\<rparr>
               in self\<lparr>currentRetries := 0\<rparr>)
         else self)"

text \<open>Lines 146-151 of the scheduled callback.\<close>

definition stopBuffering :: "transport \<Rightarrow> transport \<times> exn option" where
  "stopBuffering self =
     (if loggingEnabled self \<and> totalRetries self \<ge> maximumAttempts self
      then (let self = self\<lparr>loggingEnabled := False\<rparr>
            in emit (ErrorEvent (Error ''Max entries eclipsed, disabling buffering'')) self)
      else (self, None))"

text \<open>The callback given to \<open>setTimeout\<close> (lines 133-152). An exception of \<open>tls.connect\<close>
  leaves the callback before line 146.\<close>

definition retry :: "exn + stream \<Rightarrow> transport \<Rightarrow> transport \<times> exn option" where
  "retry r self =
     (let self = backoff self
      in case connectStream r self of
           (self, Some ex) \<Rightarrow> (self, Some ex)
         | (self, None) \<Rightarrow> stopBuffering self)"

text \<open>The timer at position \<open>i\<close> of the pending ones elapses and its callback runs.\<close>

definition timerElapsed :: "nat \<Rightarrow> exn + stream \<Rightarrow> transport \<Rightarrow> transport \<times> exn option" where
  "timerElapsed i r self =
     (if i < length (timers self)
      then retry r (self\<lparr>timers := take i (timers self) @ drop (Suc i) (timers self)\<rparr>)
      else (self, None))"


text \<open>\<open>onConnected\<close> (lines 161-175). \<open>self.stream.write\<close> throws when there is no
  socket.\<close>

definition onConnected :: "transport \<Rightarrow> transport \<times> exn option" where
  "onConnected self =
     (let self = self\<lparr>loggingEnabled := True\<rparr>;
          self = self\<lparr>currentRetries := 0\<rparr>;
          self = self\<lparr>totalRetries := 0\<rparr>;
          self = self\<lparr>connectionDelay := 1000\<rparr>
      in case emit (ConnectEvent (''Connected to Loggly at '' @ host self @ '':''
                      @ show_int (port self))) self of
           (self, Some ex) \<Rightarrow> (self, Some ex)
         | (self, None) \<Rightarrow>
             if buffer self \<noteq> []
             then (case stream self of
                     None \<Rightarrow>
                       (self, Some (TypeError ''Cannot read property write of undefined''))
                   | Some st \<Rightarrow>
                       (let self = self\<lparr>wire := wire self @ [buffer self]\<rparr>
                        in (self\<lparr>buffer := []\<rparr>, None)))
             else (self, None))"

section \<open>Encoding and sending\<close>

text \<open>\<open>levelMap\<close> (lines 262-271): its own properties, and the members it inherits from
  \<open>Object.prototype\<close>, which a property read also finds.\<close>

definition levelMap :: "(string \<times> int) list" where
  "levelMap =
     [(''emerg'', 0), (''alert'', 1), (''crit'', 2), (''error'', 3),
      (''warning'', 4), (''notice'', 5), (''info'', 6), (''debug'', 7)]"

definition object_prototype :: "(string \<times> jsval) list" where
  "object_prototype =
     [(''constructor'', JFun ''Object''),
      (''toString'', JFun ''toString''),
      (''toLocaleString'', JFun ''toLocaleString''),
      (''valueOf'', JFun ''valueOf''),
      (''hasOwnProperty'', JFun ''hasOwnProperty''),
      (''isPrototypeOf'', JFun ''isPrototypeOf''),
      (''propertyIsEnumerable'', JFun ''propertyIsEnumerable''),
      (''__defineGetter__'', JFun ''__defineGetter__''),
      (''__defineSetter__'', JFun ''__defineSetter__''),
      (''__lookupGetter__'', JFun ''__lookupGetter__''),
      (''__lookupSetter__'', JFun ''__lookupSetter__''),
      (''__proto__'', JObj [])]"

text \<open>The property read \<open>levelMap[level]\<close>.\<close>

definition levelMap_get :: "string \<Rightarrow> jsval" where
  "levelMap_get lv =
     (case map_of levelMap lv of
        Some n \<Rightarrow> JNum n
      | None \<Rightarrow> (case map_of object_prototype lv of Some v \<Rightarrow> v | None \<Rightarrow> JUndefined))"

text \<open>\<open>getPriority\<close> (lines 272-275).\<close>

definition getPriority :: "string \<Rightarrow> jsval" where
  "getPriority lv = (let v = levelMap_get lv in if truthy v then v else JNum 6)"

text \<open>\<open>8 + getPriority(level)\<close> (line 240). \<open>getPriority\<close> returns a number, or a truthy
  member inherited from \<open>Object.prototype\<close> (a function or an object), to whose text \<open>+\<close>
  concatenates the 8.\<close>

definition priVal :: "string \<Rightarrow> jsval" where
  "priVal lv =
     (case getPriority lv of
        JNum n \<Rightarrow> JNum (8 + n)
      | v \<Rightarrow> JStr (''8'' @ to_text v))"

text \<open>The record built by \<open>sendMessage\<close> (lines 242-251); \<open>now\<close> is the text of
  \<open>(new Date()).toISOString()\<close>.\<close>

definition encode :: "transport \<Rightarrow> string \<Rightarrow> string \<Rightarrow> jsval \<Rightarrow> jsval \<Rightarrow> string" where
  "encode self now lv message meta =
     ''<'' @ to_text (priVal lv) @ ''>1 '' @
     now @ '' '' @
     hostname self @ '' '' @
     program self @ '' '' @
     pid self @ '' '' @
     [CHR 0x22] @ ''-'' @ [CHR 0x22] @ '' '' @
     structuredData self @ '' '' @
     logFormat self message meta @
     [CHR 0x0D, CHR 0x0A]"

text \<open>\<open>sendMessage\<close> (lines 236-258).\<close>

definition sendMessage :: "string \<Rightarrow> string \<Rightarrow> jsval \<Rightarrow> jsval \<Rightarrow> transport \<Rightarrow> transport" where
  "sendMessage now lv message meta self =
     (let msg = encode self now lv message meta
      in if (case stream self of None \<Rightarrow> False | Some st \<Rightarrow> writable st)
         then self\<lparr>wire := wire self @ [msg]\<rparr>
         else if loggingEnabled self
         then self\<lparr>buffer := buffer self @ msg\<rparr>
         else self)"

text \<open>A call \<open>f(args)\<close> of a value received from the caller: recorded when \<open>f\<close> is a
  function, a TypeError otherwise.\<close>

definition call :: "jsval \<Rightarrow> jsval list \<Rightarrow> transport \<Rightarrow> transport \<times> exn option" where
  "call f args self =
     (case f of
        JFun k \<Rightarrow> (self\<lparr>calls := calls self @ [(k, args)]\<rparr>, None)
      | _ \<Rightarrow> (self, Some (TypeError ''callback is not a function'')))"

text \<open>\<open>Loggly.prototype.log\<close> (lines 202-225). An absent \<open>callback\<close> is \<open>JUndefined\<close>.\<close>

definition log ::
  "env \<Rightarrow> string \<Rightarrow> string \<Rightarrow> jsval \<Rightarrow> jsval \<Rightarrow> jsval \<Rightarrow> transport \<Rightarrow> transport \<times> exn option" where
  "log e now lv msg meta callback self =
     (let swap = (is_function meta \<and> \<not> truthy callback);
          callback = (if swap then meta else callback);
          meta = (if swap then JObj [] else meta)
      in if \<not> loggingEnabled self
         then call callback [JNull, JBool True] self
         else
           (let output = msg;
                output = (if \<not> is_string output then JStr (util_inspect e output) else output);
                self = sendMessage now lv msg meta self
            in call callback [JNull, JBool True] self))"

section \<open>A transport for the examples\<close>

text \<open>A concrete environment, the options \<open>{token: 'abc'}\<close>, and the transport that the
  constructor builds from them when \<open>tls.connect\<close> returns a socket that is not writable
  yet (lemma \<open>Loggly_example\<close>).\<close>

definition example_env :: env where
  "example_env =
     \<lparr> os_hostname = ''web1'', process_pid = 4242,
       JSON_stringify = (\<lambda>v. ''{}''), util_inspect = (\<lambda>v. ''inspected'') \<rparr>"

definition example_options :: options where
  "example_options = no_options\<lparr>opt_token := Some ''abc''\<rparr>"

definition example_transport :: transport where
  "example_transport =
     (initial example_env example_options)
       \<lparr>structuredData := ''[abc@41058]'', stream := Some (Stream False),
        connects := [(6514, ''logs-01.loggly.com'')]\<rparr>"

section \<open>Properties\<close>

subsection \<open>Field-wise effect of each operation\<close>


lemma example_fields:
  "connectionDelay example_transport = 1000"
  "maxDelayBetweenReconnection example_transport = 60000"
  "attemptsBeforeDecay example_transport = 5"
  "maximumAttempts example_transport = 25"
  "currentRetries example_transport = 0"
  "totalRetries example_transport = 0"
  "loggingEnabled example_transport"
  "buffer example_transport = []"
  "wire example_transport = []"
  "emitted example_transport = []"
  "timers example_transport = []"
  "calls example_transport = []"
  "stream example_transport = Some (Stream False)"
  "\<not> listening example_transport"
  "connects example_transport = [(6514, ''logs-01.loggly.com'')]"
  "port example_transport = 6514"
  "host example_transport = ''logs-01.loggly.com''"
  by (simp_all add: example_transport_def example_options_def no_options_def
      initial_def or_num_def or_str_def or_obj_def)

lemma backoff_fields:
  "totalRetries (backoff self) = totalRetries self + 1"
  "currentRetries (backoff self) =
     (if connectionDelay self < maxDelayBetweenReconnection self
         \<and> currentRetries self + 1 \<ge> attemptsBeforeDecay self
      then 0 else currentRetries self + 1)"
  "connectionDelay (backoff self) =
     (if connectionDelay self < maxDelayBetweenReconnection self
         \<and> currentRetries self + 1 \<ge> attemptsBeforeDecay self
      then connectionDelay self * 2 else connectionDelay self)"
  by (simp_all add: backoff_def Let_def)

lemma connectStream_fields:
  "currentRetries (fst (connectStream r self)) = currentRetries self"
  "totalRetries (fst (connectStream r self)) = totalRetries self"
  "connectionDelay (fst (connectStream r self)) = connectionDelay self"
  "loggingEnabled (fst (connectStream r self)) = loggingEnabled self"
  "maximumAttempts (fst (connectStream r self)) = maximumAttempts self"
  "buffer (fst (connectStream r self)) = buffer self"
  "emitted (fst (connectStream r self)) = emitted self"
  "wire (fst (connectStream r self)) = wire self"
  "timers (fst (connectStream r self)) = timers self"
  "listening (fst (connectStream r self)) = listening self"
  "connects (fst (connectStream r self)) = connects self @ [(port self, host self)]"
  by (simp_all add: connectStream_def Let_def split: sum.splits)

lemma emit_state: "fst (emit ev self) = self\<lparr>emitted := emitted self @ [ev]\<rparr>"
  by (simp add: emit_def Let_def split: event.splits)

lemma emit_thrown:
  "snd (emit (ErrorEvent err) self) = (if listening self then None else Some err)"
  "snd (emit (ConnectEvent m) self) = None"
  by (simp_all add: emit_def Let_def)

lemma stopBuffering_state:
  "fst (stopBuffering self) =
     (if loggingEnabled self \<and> totalRetries self \<ge> maximumAttempts self
      then self\<lparr>loggingEnabled := False,
             emitted := emitted self
               @ [ErrorEvent (Error ''Max entries eclipsed, disabling buffering'')]\<rparr>
      else self)"
  by (simp add: stopBuffering_def emit_state Let_def)

lemma stopBuffering_fields:
  "currentRetries (fst (stopBuffering self)) = currentRetries self"
  "totalRetries (fst (stopBuffering self)) = totalRetries self"
  "connectionDelay (fst (stopBuffering self)) = connectionDelay self"
  "buffer (fst (stopBuffering self)) = buffer self"
  "wire (fst (stopBuffering self)) = wire self"
  "timers (fst (stopBuffering self)) = timers self"
  "connects (fst (stopBuffering self)) = connects self"
  "stream (fst (stopBuffering self)) = stream self"
  "listening (fst (stopBuffering self)) = listening self"
  by (simp_all add: stopBuffering_state)

lemma retry_state:
  "fst (retry r self) =
     (case r of Inl e \<Rightarrow> fst (connectStream r (backoff self))
      | Inr st \<Rightarrow> fst (stopBuffering (fst (connectStream r (backoff self)))))"
  by (simp add: retry_def connectStream_def Let_def split: sum.splits)

lemma limits_kept:
  "attemptsBeforeDecay (backoff self) = attemptsBeforeDecay self"
  "maxDelayBetweenReconnection (backoff self) = maxDelayBetweenReconnection self"
  "attemptsBeforeDecay (fst (connectStream r self)) = attemptsBeforeDecay self"
  "maxDelayBetweenReconnection (fst (connectStream r self)) = maxDelayBetweenReconnection self"
  "attemptsBeforeDecay (fst (stopBuffering self)) = attemptsBeforeDecay self"
  "maxDelayBetweenReconnection (fst (stopBuffering self)) = maxDelayBetweenReconnection self"
  by (simp_all add: backoff_def connectStream_def stopBuffering_state Let_def
      split: sum.splits)

lemma retry_fields:
  "attemptsBeforeDecay (fst (retry r self)) = attemptsBeforeDecay self"
  "maxDelayBetweenReconnection (fst (retry r self)) = maxDelayBetweenReconnection self"
  "totalRetries (fst (retry r self)) = totalRetries self + 1"
  "currentRetries (fst (retry r self)) =
     (if connectionDelay self < maxDelayBetweenReconnection self
         \<and> currentRetries self + 1 \<ge> attemptsBeforeDecay self
      then 0 else currentRetries self + 1)"
  "connectionDelay (fst (retry r self)) =
     (if connectionDelay self < maxDelayBetweenReconnection self
         \<and> currentRetries self + 1 \<ge> attemptsBeforeDecay self
      then connectionDelay self * 2 else connectionDelay self)"
  by (simp_all add: retry_state connectStream_fields stopBuffering_fields backoff_fields
      limits_kept split: sum.splits)

lemma onConnected_fields:
  "connectionDelay (fst (onConnected self)) = 1000"
  "currentRetries (fst (onConnected self)) = 0"
  "totalRetries (fst (onConnected self)) = 0"
  "loggingEnabled (fst (onConnected self))"
  by (simp_all add: onConnected_def emit_def Let_def split: option.splits)

lemma call_fun:
  "call (JFun k) args self = (self\<lparr>calls := calls self @ [(k, args)]\<rparr>, None)"
  by (simp add: call_def)

lemma sendMessage_disabled:
  "\<not> loggingEnabled self \<Longrightarrow> buffer (sendMessage now lv message meta self) = buffer self"
  by (simp add: sendMessage_def Let_def)

lemma log_disabled:
  "\<not> loggingEnabled self \<Longrightarrow>
     log e now lv msg meta callback self =
       call (if is_function meta \<and> \<not> truthy callback then meta else callback)
         [JNull, JBool True] self"
  by (simp add: log_def Let_def)

lemma call_fields:
  "buffer (fst (call f args self)) = buffer self"
  "wire (fst (call f args self)) = wire self"
  by (simp_all add: call_def split: jsval.splits)

lemma backoff_other:
  "loggingEnabled (backoff self) = loggingEnabled self"
  "maximumAttempts (backoff self) = maximumAttempts self"
  "buffer (backoff self) = buffer self"
  "emitted (backoff self) = emitted self"
  "wire (backoff self) = wire self"
  "timers (backoff self) = timers self"
  "connects (backoff self) = connects self"
  "stream (backoff self) = stream self"
  "listening (backoff self) = listening self"
  "port (backoff self) = port self"
  "host (backoff self) = host self"
  by (simp_all add: backoff_def Let_def)

lemma log_enabled:
  "loggingEnabled self \<Longrightarrow>
     log e now lv msg meta (JFun k) self =
       call (JFun k) [JNull, JBool True] (sendMessage now lv msg meta self)"
  by (simp add: log_def Let_def)

lemma log_buffers:
  assumes "stream self = Some st" "\<not> writable st" "loggingEnabled self"
  shows "fst (log e now lv msg meta (JFun k) self) =
           self\<lparr>buffer := buffer self @ encode self now lv msg meta,
                calls := calls self @ [(k, [JNull, JBool True])]\<rparr>"
  using assms by (simp add: log_enabled call_fun sendMessage_def Let_def)

lemma log_writes:
  assumes "stream self = Some st" "writable st" "loggingEnabled self"
  shows "fst (log e now lv msg meta (JFun k) self) =
           self\<lparr>wire := wire self @ [encode self now lv msg meta],
                calls := calls self @ [(k, [JNull, JBool True])]\<rparr>"
  using assms by (simp add: log_enabled call_fun sendMessage_def Let_def)

lemma onConnected_flush:
  assumes "stream self = Some st" "buffer self \<noteq> []"
  shows "wire (fst (onConnected self)) = wire self @ [buffer self]"
    and "buffer (fst (onConnected self)) = []"
    and "stream (fst (onConnected self)) = stream self"
    and "encode (fst (onConnected self)) = encode self"
  using assms by (simp_all add: onConnected_def emit_def Let_def encode_def fun_eq_iff)

lemma encode_update:
  "encode (s\<lparr>buffer := b\<rparr>) = encode s"
  "encode (s\<lparr>calls := c\<rparr>) = encode s"
  "encode (s\<lparr>wire := w\<rparr>) = encode s"
  "encode (s\<lparr>stream := x\<rparr>) = encode s"
  by (simp_all add: encode_def fun_eq_iff)

lemma encode_more:
  "encode (s\<lparr>emitted := ev\<rparr>) = encode s"
  "encode (s\<lparr>timers := ts\<rparr>) = encode s"
  "encode (s\<lparr>listening := l\<rparr>) = encode s"
  "encode (s\<lparr>connects := cs\<rparr>) = encode s"
  "encode (s\<lparr>currentRetries := n\<rparr>) = encode s"
  "encode (s\<lparr>totalRetries := n\<rparr>) = encode s"
  "encode (s\<lparr>connectionDelay := n\<rparr>) = encode s"
  "encode (s\<lparr>loggingEnabled := b\<rparr>) = encode s"
  by (simp_all add: encode_def fun_eq_iff)

lemma encode_nonempty: "encode self now lv message meta \<noteq> []"
  by (simp add: encode_def)

lemma sendMessage_calls: "calls (sendMessage now lv message meta self) = calls self"
  by (simp add: sendMessage_def Let_def)

lemma onStreamError_listening:
  "listening self \<Longrightarrow>
     onStreamError err self =
       (self\<lparr>emitted := emitted self @ [ErrorEvent err],
             timers := timers self @ [connectionDelay self]\<rparr>, None)"
  by (simp add: onStreamError_def emit_def Let_def)


lemma timerElapsed_last:
  "timerElapsed (length ts) r (self\<lparr>timers := ts @ [d]\<rparr>) = retry r (self\<lparr>timers := ts\<rparr>)"
  by (simp add: timerElapsed_def)

lemma Loggly_Inr:
  "Loggly e r (Some options) = Inr self \<Longrightarrow>
     \<exists>st. r = Inr st \<and> self = (initial e options)
       \<lparr>structuredData := structured (opt_token options) (or_obj (opt_tags options) []),
        stream := Some st,
        connects := [(or_num (opt_port options) 6514,
                      or_str (opt_host options) ''logs-01.loggly.com'')]\<rparr>"
  by (cases r) (auto simp add: Loggly_def initial_def connectStream_def emit_def Let_def
      split: if_splits)

lemma Loggly_connect_throws:
  "\<not> falsy_str (opt_token options) \<Longrightarrow> Loggly e (Inl ex) (Some options) = Inl ex"
  by (auto simp add: Loggly_def falsy_str_def initial_def connectStream_def emit_def Let_def
      split: option.splits)

lemma or_falsy:
  "falsy_str v \<Longrightarrow> or_str v d = d"
  "falsy_num n \<Longrightarrow> or_num n i = i"
  "falsy_bool b \<Longrightarrow> or_bool b False = False"
  "or_obj None x = x"
  by (auto simp add: falsy_str_def falsy_num_def falsy_bool_def or_str_def or_num_def
      or_bool_def or_obj_def split: option.splits)

subsection \<open>The priority of a record\<close>

lemma priVal_known:
  "priVal ''alert'' = JNum (8 + 1)" "priVal ''crit'' = JNum (8 + 2)"
  "priVal ''error'' = JNum (8 + 3)" "priVal ''warning'' = JNum (8 + 4)"
  "priVal ''notice'' = JNum (8 + 5)" "priVal ''info'' = JNum (8 + 6)"
  "priVal ''debug'' = JNum (8 + 7)"
  by (simp_all add: priVal_def getPriority_def levelMap_get_def levelMap_def)

lemma priVal_unknown:
  "map_of levelMap lv = None \<Longrightarrow> map_of object_prototype lv = None \<Longrightarrow> priVal lv = JNum (8 + 6)"
  by (simp add: priVal_def getPriority_def levelMap_get_def)

lemma priVal_inherited:
  "priVal ''constructor'' = JStr ''8function Object() { [native code] }''"
  by (simp add: priVal_def getPriority_def levelMap_get_def levelMap_def object_prototype_def)

lemma encode_example:
  "encode example_transport ''2020-01-01T00:00:00.000Z'' ''error'' (JStr ''A'') (JObj [])
     = ''<11>1 2020-01-01T00:00:00.000Z web1 default 4242 '' @ [CHR 0x22] @ ''-'' @ [CHR 0x22]
         @ '' [abc@41058] {}'' @ [CHR 0x0D, CHR 0x0A]"
  by (simp add: encode_def priVal_known show_int_def dec.simps example_transport_def
      example_options_def example_env_def no_options_def initial_def or_str_def or_obj_def
      default_logFormat_def)

text \<open>
  C1. For each level of the mapping PRIORITY should be 8 plus the mapped number, and
  8 + 6 for any other level. The code differs at \<open>emerg\<close>: its entry is 0, which
  \<open>levelMap[level] || 6\<close> replaces by 6, so the record of an \<open>emerg\<close> message starts with
  \<open><14>1\<close> where the mapping gives \<open><8>1\<close>. The seven other levels are as claimed
  (\<open>priVal_known\<close>), and so is a level that is neither in the mapping nor a member of
  \<open>Object.prototype\<close> (\<open>priVal_unknown\<close>).
\<close>

theorem getPriority_emerg:
  "map_of levelMap ''emerg'' = Some 0 \<and> getPriority ''emerg'' = JNum 6
   \<and> priVal ''emerg'' = JNum 14
   \<and> take 5 (encode self now ''emerg'' message meta) = ''<14>1''"
  by (simp add: encode_def priVal_def getPriority_def levelMap_get_def levelMap_def
      show_int_def dec.simps)

subsection \<open>Backoff\<close>

text \<open>
  C2. The callback scheduled by the stream's error handler adds 1 to \<open>totalRetries\<close> and
  to \<open>currentRetries\<close>; then, exactly when \<open>connectionDelay\<close> is below
  \<open>maxDelayBetweenReconnection\<close> and the incremented \<open>currentRetries\<close> has reached
  \<open>attemptsBeforeDecay\<close>, it doubles \<open>connectionDelay\<close> (without a cap) and resets
  \<open>currentRetries\<close> to 0. In particular a delay at or above the maximum is not doubled.
\<close>

theorem retry_backoff:
  "totalRetries (fst (retry r self)) = totalRetries self + 1
   \<and> (if connectionDelay self < maxDelayBetweenReconnection self
          \<and> currentRetries self + 1 \<ge> attemptsBeforeDecay self
       then connectionDelay (fst (retry r self)) = connectionDelay self * 2
            \<and> currentRetries (fst (retry r self)) = 0
       else connectionDelay (fst (retry r self)) = connectionDelay self
            \<and> currentRetries (fst (retry r self)) = currentRetries self + 1)
   \<and> (maxDelayBetweenReconnection self \<le> connectionDelay self \<longrightarrow>
        connectionDelay (fst (retry r self)) = connectionDelay self)"
  by (simp add: retry_state connectStream_fields stopBuffering_fields backoff_fields
      split: sum.splits)

text \<open>With the defaults: the fifth failure doubles 1000 to 2000 and resets the counter;
  32000 doubles to 64000, beyond the maximum 60000, and 64000 is not doubled again.\<close>

theorem retry_backoff_witness:
  "connectionDelay (fst (retry (Inr (Stream False))
       (example_transport\<lparr>currentRetries := 4, totalRetries := 4\<rparr>))) = 2000
   \<and> currentRetries (fst (retry (Inr (Stream False))
       (example_transport\<lparr>currentRetries := 4, totalRetries := 4\<rparr>))) = 0
   \<and> totalRetries (fst (retry (Inr (Stream False))
       (example_transport\<lparr>currentRetries := 4, totalRetries := 4\<rparr>))) = 5
   \<and> connectionDelay (fst (retry (Inr (Stream False))
       (example_transport\<lparr>connectionDelay := 32000, currentRetries := 4\<rparr>))) = 64000
   \<and> connectionDelay (fst (retry (Inr (Stream False))
       (example_transport\<lparr>connectionDelay := 64000, currentRetries := 4\<rparr>))) = 64000
   \<and> currentRetries (fst (retry (Inr (Stream False))
       (example_transport\<lparr>connectionDelay := 64000, currentRetries := 4\<rparr>))) = 5"
  using retry_backoff [of "Inr (Stream False)" "example_transport\<lparr>currentRetries := 4, totalRetries := 4\<rparr>"]
    retry_backoff [of "Inr (Stream False)" "example_transport\<lparr>connectionDelay := 32000, currentRetries := 4\<rparr>"]
    retry_backoff [of "Inr (Stream False)" "example_transport\<lparr>connectionDelay := 64000, currentRetries := 4\<rparr>"]
  by (simp add: example_fields)

text \<open>Five failures in a row of the transport built with the defaults.\<close>

lemma five_failures:
  "connectionDelay (fst (retry r5 (fst (retry r4 (fst (retry r3 (fst (retry r2
      (fst (retry r1 example_transport))))))))))
     = 2000
   \<and> currentRetries (fst (retry r5 (fst (retry r4 (fst (retry r3 (fst (retry r2
      (fst (retry r1 example_transport))))))))))
     = 0
   \<and> totalRetries (fst (retry r5 (fst (retry r4 (fst (retry r3 (fst (retry r2
      (fst (retry r1 example_transport))))))))))
     = 5"
  by (simp add: retry_fields example_fields)

subsection \<open>Disabling the buffer\<close>

text \<open>
  C4. When buffering is enabled and \<open>totalRetries\<close> has reached \<open>maximumAttempts\<close>, the
  check at the end of the retry callback disables buffering and emits one error event,
  "Max entries eclipsed, disabling buffering", leaving the buffer as it is (the event is
  thrown by \<open>emit\<close> when the transport has no \<open>error\<close> listener). When
  buffering is already disabled the check changes nothing: a further retry emits no
  event and keeps the buffer, and neither \<open>sendMessage\<close> nor \<open>log\<close> adds to the buffer.
\<close>

theorem buffering_disabled_once:
  "(loggingEnabled self \<and> totalRetries self \<ge> maximumAttempts self \<longrightarrow>
      fst (stopBuffering self) =
        self\<lparr>loggingEnabled := False,
             emitted := emitted self
               @ [ErrorEvent (Error ''Max entries eclipsed, disabling buffering'')]\<rparr>
      \<and> snd (stopBuffering self) =
          (if listening self then None
           else Some (Error ''Max entries eclipsed, disabling buffering'')))
   \<and> (\<not> loggingEnabled self \<longrightarrow> stopBuffering self = (self, None))
   \<and> (loggingEnabled self \<and> totalRetries self + 1 \<ge> maximumAttempts self \<longrightarrow>
        \<not> loggingEnabled (fst (retry (Inr st) self))
        \<and> emitted (fst (retry (Inr st) self)) =
            emitted self @ [ErrorEvent (Error ''Max entries eclipsed, disabling buffering'')]
        \<and> buffer (fst (retry (Inr st) self)) = buffer self)
   \<and> (\<not> loggingEnabled self \<longrightarrow>
        \<not> loggingEnabled (fst (retry r self))
        \<and> emitted (fst (retry r self)) = emitted self
        \<and> buffer (fst (retry r self)) = buffer self)
   \<and> (\<not> loggingEnabled self \<longrightarrow>
        buffer (sendMessage now lv message meta self) = buffer self
        \<and> buffer (fst (log e now lv message meta callback self)) = buffer self)"
proof -
  have a: "loggingEnabled self \<and> totalRetries self \<ge> maximumAttempts self \<longrightarrow>
      fst (stopBuffering self) =
        self\<lparr>loggingEnabled := False,
             emitted := emitted self
               @ [ErrorEvent (Error ''Max entries eclipsed, disabling buffering'')]\<rparr>
      \<and> snd (stopBuffering self) =
          (if listening self then None
           else Some (Error ''Max entries eclipsed, disabling buffering''))"
    by (simp add: stopBuffering_def emit_state emit_thrown Let_def)
  have b: "\<not> loggingEnabled self \<longrightarrow> stopBuffering self = (self, None)"
    by (simp add: stopBuffering_def)
  have c: "loggingEnabled self \<and> totalRetries self + 1 \<ge> maximumAttempts self \<longrightarrow>
        \<not> loggingEnabled (fst (retry (Inr st) self))
        \<and> emitted (fst (retry (Inr st) self)) =
            emitted self @ [ErrorEvent (Error ''Max entries eclipsed, disabling buffering'')]
        \<and> buffer (fst (retry (Inr st) self)) = buffer self"
    by (simp add: retry_state stopBuffering_state connectStream_fields backoff_fields
        backoff_other)
  have d: "\<not> loggingEnabled self \<longrightarrow>
        \<not> loggingEnabled (fst (retry r self))
        \<and> emitted (fst (retry r self)) = emitted self
        \<and> buffer (fst (retry r self)) = buffer self"
    by (cases r) (simp_all add: retry_state stopBuffering_state connectStream_fields
        backoff_other)
  have f: "\<not> loggingEnabled self \<longrightarrow>
        buffer (sendMessage now lv message meta self) = buffer self
        \<and> buffer (fst (log e now lv message meta callback self)) = buffer self"
    by (simp add: sendMessage_disabled log_disabled call_fields)
  from a b c d f show ?thesis by blast
qed

text \<open>With the defaults, the 25th failure disables buffering with one event; the 26th
  adds no event, and a message logged afterwards leaves the buffer \<open>pending\<close>.\<close>

theorem buffering_disabled_once_witness:
  "loggingEnabled (example_transport\<lparr>totalRetries := 24, buffer := ''pending''\<rparr>)
   \<and> maximumAttempts example_transport \<le> 24 + 1
   \<and> \<not> loggingEnabled (fst (retry (Inr (Stream False))
         (example_transport\<lparr>totalRetries := 24, buffer := ''pending''\<rparr>)))
   \<and> emitted (fst (retry (Inr (Stream False))
         (example_transport\<lparr>totalRetries := 24, buffer := ''pending''\<rparr>)))
       = [ErrorEvent (Error ''Max entries eclipsed, disabling buffering'')]
   \<and> emitted (fst (retry (Inr (Stream False)) (fst (retry (Inr (Stream False))
         (example_transport\<lparr>totalRetries := 24, buffer := ''pending''\<rparr>)))))
       = [ErrorEvent (Error ''Max entries eclipsed, disabling buffering'')]
   \<and> buffer (fst (retry (Inr (Stream False)) (fst (retry (Inr (Stream False))
         (example_transport\<lparr>totalRetries := 24, buffer := ''pending''\<rparr>)))))
       = ''pending''
   \<and> buffer (fst (log example_env ''t'' ''info'' (JStr ''m'') (JObj []) (JFun ''cb'')
         (fst (retry (Inr (Stream False))
           (example_transport\<lparr>totalRetries := 24, buffer := ''pending''\<rparr>)))))
       = ''pending''"
proof -
  let ?s0 = "example_transport\<lparr>totalRetries := 24, buffer := ''pending''\<rparr>"
  let ?s1 = "fst (retry (Inr (Stream False)) ?s0)"
  have h0: "loggingEnabled ?s0 \<and> totalRetries ?s0 + 1 \<ge> maximumAttempts ?s0"
    by (simp add: example_fields)
  note t0 = buffering_disabled_once [of ?s0 "Stream False"]
  from t0 h0 have s1: "\<not> loggingEnabled ?s1" "emitted ?s1 = [ErrorEvent (Error ''Max entries eclipsed, disabling buffering'')]"
    "buffer ?s1 = ''pending''"
    by (simp_all add: example_fields)
  note t1 = buffering_disabled_once [of ?s1 _ "Inr (Stream False)" "''t''" "''info''" "JStr ''m''" "JObj []" example_env "JFun ''cb''"]
  from t1 s1 have "emitted (fst (retry (Inr (Stream False)) ?s1)) = emitted ?s1"
    "buffer (fst (retry (Inr (Stream False)) ?s1)) = buffer ?s1"
    "buffer (fst (log example_env ''t'' ''info'' (JStr ''m'') (JObj []) (JFun ''cb'') ?s1)) = buffer ?s1"
    by blast+
  with s1 h0 show ?thesis by (simp add: example_fields)
qed

subsection \<open>A successful connection\<close>

text \<open>
  C3. A successful connection should reset \<open>currentRetries\<close> and \<open>totalRetries\<close> to 0 and
  \<open>connectionDelay\<close> to the configured value. \<open>onConnected\<close> resets both counters, but
  assigns the constant 1000 to \<open>connectionDelay\<close>: a transport built with
  \<open>connectionDelay: 500\<close> has the delay 1000 after its first connection.
\<close>

theorem onConnected_ignores_configured_delay:
  "\<exists>self. Loggly e (Inr st)
       (Some (no_options\<lparr>opt_token := Some ''abc'', opt_connectionDelay := Some 500\<rparr>))
       = Inr self
     \<and> connectionDelay self = 500
     \<and> connectionDelay (fst (onConnected self)) = 1000
     \<and> currentRetries (fst (onConnected self)) = 0
     \<and> totalRetries (fst (onConnected self)) = 0"
  by (simp add: Loggly_def no_options_def initial_def connectStream_def or_num_def Let_def
      onConnected_fields)

subsection \<open>The order of buffered and written messages\<close>

text \<open>When the socket stays unwritable while A and B are logged and is the one that
  connects, the buffer is written as one chunk, A before B, and cleared, and C follows.\<close>

lemma buffer_flushed_before_later_writes:
  assumes "stream self = Some st" and "\<not> writable st" and "loggingEnabled self"
    and "s1 = fst (log e tA lA mA metaA (JFun cA) self)"
    and "s2 = fst (log e tB lB mB metaB (JFun cB) s1)"
    and "s3 = fst (onConnected (s2\<lparr>stream := Some (Stream True)\<rparr>))"
    and "s4 = fst (log e tC lC mC metaC (JFun cC) s3)"
  shows "wire s2 = wire self
       \<and> wire s3 = wire self @
           [buffer self @ encode self tA lA mA metaA @ encode self tB lB mB metaB]
       \<and> buffer s3 = []
       \<and> wire s4 = wire self @
           [buffer self @ encode self tA lA mA metaA @ encode self tB lB mB metaB,
            encode self tC lC mC metaC]
       \<and> buffer s4 = []"
proof -
  have s1: "s1 = self\<lparr>buffer := buffer self @ encode self tA lA mA metaA,
                calls := calls self @ [(cA, [JNull, JBool True])]\<rparr>"
    using assms(1-4) by (simp add: log_buffers)
  have e1: "encode s1 = encode self"
    by (simp add: s1 encode_update)
  have s2: "s2 = s1\<lparr>buffer := buffer s1 @ encode self tB lB mB metaB,
                calls := calls s1 @ [(cB, [JNull, JBool True])]\<rparr>"
    using assms(1-3,5) log_buffers [of s1 st e tB lB mB metaB cB] by (simp add: s1 encode_update)
  let ?c = "s2\<lparr>stream := Some (Stream True)\<rparr>"
  have b2: "buffer ?c = buffer self @ encode self tA lA mA metaA @ encode self tB lB mB metaB"
    by (simp add: s2 s1)
  have ne: "buffer ?c \<noteq> []"
    using encode_nonempty [of self tB lB mB metaB] by (simp add: b2)
  have st: "stream ?c = Some (Stream True)" by simp
  have w2: "wire ?c = wire self" by (simp add: s2 s1)
  have e2: "encode ?c = encode self" by (simp add: s2 s1 encode_update)
  have w3: "wire s3 = wire self @ [buffer ?c]" and b3: "buffer s3 = []"
    and st3: "stream s3 = Some (Stream True)" and e3: "encode s3 = encode self"
    using onConnected_flush [OF st ne] assms(6) by (simp_all add: w2 e2)
  have l3: "loggingEnabled s3"
    using assms(6) by (simp add: onConnected_fields)
  have s4: "s4 = s3\<lparr>wire := wire s3 @ [encode s3 tC lC mC metaC],
                calls := calls s3 @ [(cC, [JNull, JBool True])]\<rparr>"
    using log_writes [OF st3 _ l3, of e tC lC mC metaC cC] assms(7) by simp
  show ?thesis
    by (simp add: s4 w3 b3 b2 e3) (simp add: s2 s1)
qed

text \<open>
  C5. Messages logged while disconnected should reach the wire before any message logged
  after the connection, in the order of the calls. The code decides between writing and
  buffering by \<open>stream.writable\<close> alone, and \<open>connectStream\<close> installs the new socket
  before \<open>onConnected\<close> flushes the buffer. After an error, A is buffered; the retry
  installs a socket that accepts writes while it connects; B, logged before the
  connection is established, is passed to that socket at once; \<open>onConnected\<close> then writes
  the buffer holding A; C follows. The chunks written are B, A, C.
\<close>

theorem message_during_connect_overtakes_buffer:
  "wire (fst (log example_env ''t3'' ''info'' (JStr ''C'') (JObj []) (JFun ''cb'')
     (fst (onConnected
       (fst (log example_env ''t2'' ''debug'' (JStr ''B'') (JObj []) (JFun ''cb'')
         (fst (timerElapsed 0 (Inr (Stream True))
           (fst (log example_env ''t1'' ''error'' (JStr ''A'') (JObj []) (JFun ''cb'')
             (fst (onStreamError (Error ''ECONNRESET'')
               (addErrorListener example_transport)))))))))))))
   = [encode example_transport ''t2'' ''debug'' (JStr ''B'') (JObj []),
      encode example_transport ''t1'' ''error'' (JStr ''A'') (JObj []),
      encode example_transport ''t3'' ''info'' (JStr ''C'') (JObj [])]"
proof -
  let ?s0 = "addErrorListener example_transport"
  let ?s1 = "?s0\<lparr>emitted := [ErrorEvent (Error ''ECONNRESET'')], timers := [1000]\<rparr>"
  let ?rA = "encode example_transport ''t1'' ''error'' (JStr ''A'') (JObj [])"
  let ?rB = "encode example_transport ''t2'' ''debug'' (JStr ''B'') (JObj [])"
  let ?rC = "encode example_transport ''t3'' ''info'' (JStr ''C'') (JObj [])"
  have s1: "fst (onStreamError (Error ''ECONNRESET'') ?s0) = ?s1"
    by (simp add: onStreamError_listening addErrorListener_def example_fields)
  let ?s2 = "fst (log example_env ''t1'' ''error'' (JStr ''A'') (JObj []) (JFun ''cb'') ?s1)"
  have s2: "?s2 = ?s1\<lparr>buffer := ?rA, calls := [(''cb'', [JNull, JBool True])]\<rparr>"
    using log_buffers [of ?s1 "Stream False" example_env "''t1''" "''error''" "JStr ''A''"
        "JObj []" "''cb''"]
    by (simp add: addErrorListener_def example_fields encode_update encode_more)
  let ?s3 = "fst (timerElapsed 0 (Inr (Stream True)) ?s2)"
  have s3: "stream ?s3 = Some (Stream True)" "buffer ?s3 = ?rA" "wire ?s3 = []"
    "loggingEnabled ?s3" "encode ?s3 = encode example_transport"
    unfolding s2
    by (simp_all add: timerElapsed_def retry_def connectStream_def backoff_def
        stopBuffering_def Let_def addErrorListener_def example_fields encode_update
        encode_more)
  let ?s4 = "fst (log example_env ''t2'' ''debug'' (JStr ''B'') (JObj []) (JFun ''cb'') ?s3)"
  have s4: "?s4 = ?s3\<lparr>wire := [?rB], calls := calls ?s3 @ [(''cb'', [JNull, JBool True])]\<rparr>"
    using log_writes [of ?s3 "Stream True" example_env "''t2''" "''debug''" "JStr ''B''"
        "JObj []" "''cb''"] s3
    by simp
  have b4: "stream ?s4 = Some (Stream True)" "buffer ?s4 = ?rA" "wire ?s4 = [?rB]"
    "encode ?s4 = encode example_transport"
    by (simp_all add: s4 s3 encode_update)
  have ne: "buffer ?s4 \<noteq> []"
    using encode_nonempty [of example_transport "''t1''" "''error''" "JStr ''A''" "JObj []"]
    by (simp add: b4)
  let ?s5 = "fst (onConnected ?s4)"
  have s5: "wire ?s5 = [?rB, ?rA]" "stream ?s5 = Some (Stream True)"
    "encode ?s5 = encode example_transport" "loggingEnabled ?s5"
    using onConnected_flush [OF b4(1) ne] by (simp_all add: b4 onConnected_fields)
  have "wire (fst (log example_env ''t3'' ''info'' (JStr ''C'') (JObj []) (JFun ''cb'') ?s5))
          = [?rB, ?rA, ?rC]"
    using log_writes [of ?s5 "Stream True" example_env "''t3''" "''info''" "JStr ''C''"
        "JObj []" "''cb''"] s5
    by simp
  then show ?thesis by (simp only: s1)
qed

text \<open>The three records differ in their priorities: \<open>debug\<close>, \<open>error\<close>, \<open>info\<close>.\<close>

lemma overtaking_priorities:
  "take 5 (encode example_transport ''t2'' ''debug'' (JStr ''B'') (JObj [])) = ''<15>1''
   \<and> take 5 (encode example_transport ''t1'' ''error'' (JStr ''A'') (JObj [])) = ''<11>1''
   \<and> take 5 (encode example_transport ''t3'' ''info'' (JStr ''C'') (JObj [])) = ''<14>1''"
  by (simp add: encode_def priVal_known show_int_def dec.simps)

subsection \<open>The acknowledgement of \<open>log\<close>\<close>

text \<open>
  C6. \<open>log\<close>, called with a callback, returns without an exception after calling the
  callback exactly once, with \<open>(null, true)\<close>, whatever happens to the message. When
  buffering is disabled the message is neither written nor buffered.
\<close>

theorem log_acknowledges_once:
  "\<exists>s'. log e now lv msg meta (JFun k) self = (s', None)
      \<and> calls s' = calls self @ [(k, [JNull, JBool True])]
      \<and> (\<not> loggingEnabled self \<longrightarrow> wire s' = wire self \<and> buffer s' = buffer self)"
  by (simp add: log_def Let_def call_fun sendMessage_calls)

theorem log_acknowledges_once_witness:
  "\<not> loggingEnabled (example_transport\<lparr>loggingEnabled := False, buffer := ''pending''\<rparr>)
   \<and> (\<exists>s'. log example_env ''t'' ''info'' (JStr ''m'') (JObj []) (JFun ''cb'')
          (example_transport\<lparr>loggingEnabled := False, buffer := ''pending''\<rparr>) = (s', None)
        \<and> calls s' = [(''cb'', [JNull, JBool True])]
        \<and> wire s' = [] \<and> buffer s' = ''pending'')"
  using log_acknowledges_once [of example_env "''t''" "''info''" "JStr ''m''" "JObj []" "''cb''"
      "example_transport\<lparr>loggingEnabled := False, buffer := ''pending''\<rparr>"]
  by (simp add: example_fields)

subsection \<open>Reconnection after \<open>end\<close> and after \<open>error\<close>\<close>




subsection \<open>Messages that are not strings\<close>

text \<open>
  C8. A message that is not a string should be replaced by its \<open>util.inspect\<close> text before
  the record is built. \<open>log\<close> computes that text into \<open>output\<close> and then passes the
  original \<open>msg\<close> to \<open>sendMessage\<close>: with the default format the body of the record for
  the number 42 is the JSON text of \<open>{log_msg: 42}\<close>, not that of the object holding the
  inspected text.
\<close>

theorem log_formats_raw_message:
  "wire (fst (log e now ''info'' (JNum 42) (JObj []) (JFun ''cb'')
       ((initial e example_options)\<lparr>stream := Some (Stream True)\<rparr>)))
     = [encode (initial e example_options) now ''info'' (JNum 42) (JObj [])]
   \<and> logFormat (initial e example_options) (JNum 42) (JObj [])
       = JSON_stringify e (JObj [(''log_msg'', JNum 42)])
   \<and> logFormat (initial e example_options) (JStr (util_inspect e (JNum 42))) (JObj [])
       = JSON_stringify e
           (if util_inspect e (JNum 42) = [] then JObj []
            else JObj [(''log_msg'', JStr (util_inspect e (JNum 42)))])"
proof -
  let ?t = "(initial e example_options)\<lparr>stream := Some (Stream True)\<rparr>"
  have en: "loggingEnabled ?t" and w: "wire ?t = []"
    by (simp_all add: initial_def)
  have "fst (log e now ''info'' (JNum 42) (JObj []) (JFun ''cb'') ?t) =
          ?t\<lparr>wire := wire ?t @ [encode ?t now ''info'' (JNum 42) (JObj [])],
             calls := calls ?t @ [(''cb'', [JNull, JBool True])]\<rparr>"
    using log_writes [of ?t "Stream True" e now "''info''" "JNum 42" "JObj []" "''cb''"] en
    by simp
  then have a: "wire (fst (log e now ''info'' (JNum 42) (JObj []) (JFun ''cb'') ?t))
      = [encode (initial e example_options) now ''info'' (JNum 42) (JObj [])]"
    by (simp add: w encode_update)
  have f: "logFormat (initial e example_options) = default_logFormat (JSON_stringify e)"
    by (simp add: initial_def example_options_def no_options_def or_obj_def)
  show ?thesis
    by (simp add: a f default_logFormat_def)
qed

subsection \<open>Construction\<close>

text \<open>
  C9. Construction throws "Missing required parameters: token" when the token is absent
  or empty, also when no options are given at all. With a non-empty token the check
  passes: the constructor returns a transport holding that token when \<open>tls.connect\<close>
  returns, and when \<open>tls.connect\<close> throws, what leaves the constructor is that exception,
  thrown again by \<open>self.emit('error', e)\<close> for want of a listener.
\<close>

theorem token_required:
  "(falsy_str (opt_token options) \<longrightarrow>
      Loggly e r (Some options) = Inl (Error ''Missing required parameters: token''))
   \<and> Loggly e r None = Inl (Error ''Missing required parameters: token'')
   \<and> (\<not> falsy_str (opt_token options) \<longrightarrow>
        (\<exists>self. Loggly e (Inr st) (Some options) = Inr self
           \<and> token self = opt_token options)
        \<and> Loggly e (Inl ex) (Some options) = Inl ex)"
proof -
  have a: "falsy_str (opt_token options) \<longrightarrow>
      Loggly e r (Some options) = Inl (Error ''Missing required parameters: token'')"
    by (auto simp add: Loggly_def falsy_str_def initial_def Let_def split: option.splits)
  have b: "Loggly e r None = Inl (Error ''Missing required parameters: token'')"
    by (simp add: Loggly_def initial_def no_options_def Let_def)
  have c: "\<not> falsy_str (opt_token options) \<longrightarrow>
        (\<exists>self. Loggly e (Inr st) (Some options) = Inr self
           \<and> token self = opt_token options)"
    by (auto simp add: Loggly_def falsy_str_def initial_def connectStream_def Let_def
        split: option.splits)
  have d: "\<not> falsy_str (opt_token options) \<longrightarrow> Loggly e (Inl ex) (Some options) = Inl ex"
    by (simp add: Loggly_connect_throws)
  from a b c d show ?thesis by blast
qed

theorem token_required_witness:
  "falsy_str (opt_token no_options) \<and> falsy_str (opt_token (no_options\<lparr>opt_token := Some []\<rparr>))
   \<and> Loggly example_env (Inr (Stream False)) (Some no_options)
       = Inl (Error ''Missing required parameters: token'')
   \<and> Loggly example_env (Inr (Stream False)) (Some (no_options\<lparr>opt_token := Some []\<rparr>))
       = Inl (Error ''Missing required parameters: token'')
   \<and> \<not> falsy_str (opt_token example_options)
   \<and> (\<exists>self. Loggly example_env (Inr (Stream False)) (Some example_options) = Inr self
        \<and> token self = Some ''abc'')
   \<and> Loggly example_env (Inl (Error ''bad port'')) (Some example_options)
       = Inl (Error ''bad port'')"
  using token_required [of no_options example_env "Inr (Stream False)"]
    token_required [of "no_options\<lparr>opt_token := Some []\<rparr>" example_env "Inr (Stream False)"]
    token_required [of example_options example_env _ "Stream False" "Error ''bad port''"]
  by (simp add: falsy_str_def no_options_def example_options_def)

text \<open>
  C10. In a constructed transport every optional field has its built-in default when the
  option is absent and also when it is supplied with the falsy value of its type: 0 for a
  number, the empty string, \<open>false\<close>.
\<close>

theorem falsy_options_take_defaults:
  assumes "Loggly e r (Some options) = Inr self"
  shows "(falsy_str (opt_host options) \<longrightarrow> host self = ''logs-01.loggly.com'')
     \<and> (falsy_num (opt_port options) \<longrightarrow> port self = 6514)
     \<and> (falsy_str (opt_level options) \<longrightarrow> level self = ''info'')
     \<and> (falsy_str (opt_hostname options) \<longrightarrow> hostname self = os_hostname e)
     \<and> (falsy_str (opt_pid options) \<longrightarrow> pid self = dec (process_pid e))
     \<and> (falsy_str (opt_program options) \<longrightarrow> program self = ''default'')
     \<and> (opt_logFormat options = None \<longrightarrow>
          logFormat self = default_logFormat (JSON_stringify e))
     \<and> (opt_tags options = None \<longrightarrow> tags self = [])
     \<and> (falsy_num (opt_attemptsBeforeDecay options) \<longrightarrow> attemptsBeforeDecay self = 5)
     \<and> (falsy_num (opt_maximumAttempts options) \<longrightarrow> maximumAttempts self = 25)
     \<and> (falsy_num (opt_connectionDelay options) \<longrightarrow> connectionDelay self = 1000)
     \<and> (falsy_num (opt_maxDelayBetweenReconnection options) \<longrightarrow>
          maxDelayBetweenReconnection self = 60000)
     \<and> (falsy_bool (opt_inlineMeta options) \<longrightarrow> inlineMeta self = False)
     \<and> (falsy_bool (opt_handleExceptions options) \<longrightarrow> handleExceptions self = False)"
proof -
  from Loggly_Inr [OF assms] obtain st where
    self: "self = (initial e options)
       \<lparr>structuredData := structured (opt_token options) (or_obj (opt_tags options) []),
        stream := Some st,
        connects := [(or_num (opt_port options) 6514,
                      or_str (opt_host options) ''logs-01.loggly.com'')]\<rparr>"
    by blast
  show ?thesis
    by (simp add: self initial_def or_falsy)
qed

text \<open>The options \<open>{token: 'abc', connectionDelay: 0, maximumAttempts: 0, port: 0,
  program: ''}\<close> give the delay 1000, 25 attempts, the port 6514 and the program
  \<open>default\<close>.\<close>

theorem falsy_options_take_defaults_witness:
  "\<exists>self. Loggly example_env (Inr (Stream False))
       (Some (example_options\<lparr>opt_connectionDelay := Some 0, opt_maximumAttempts := Some 0,
          opt_port := Some 0, opt_program := Some []\<rparr>)) = Inr self
     \<and> falsy_num (Some 0) \<and> falsy_str (Some [])
     \<and> connectionDelay self = 1000 \<and> maximumAttempts self = 25 \<and> port self = 6514
     \<and> program self = ''default'' \<and> host self = ''logs-01.loggly.com''
     \<and> hostname self = ''web1'' \<and> pid self = ''4242'' \<and> attemptsBeforeDecay self = 5
     \<and> maxDelayBetweenReconnection self = 60000 \<and> tags self = []
     \<and> \<not> inlineMeta self \<and> \<not> handleExceptions self"
proof -
  let ?opts = "example_options\<lparr>opt_connectionDelay := Some 0, opt_maximumAttempts := Some 0,
          opt_port := Some 0, opt_program := Some []\<rparr>"
  have "\<exists>self. Loggly example_env (Inr (Stream False)) (Some ?opts) = Inr self"
    by (simp add: Loggly_def initial_def example_options_def no_options_def
        connectStream_def Let_def)
  then obtain self where c: "Loggly example_env (Inr (Stream False)) (Some ?opts) = Inr self"
    by blast
  have f: "falsy_num (Some 0)" "falsy_str (Some [])" "falsy_str None" "falsy_num None"
    "falsy_bool None"
    by (simp_all add: falsy_num_def falsy_str_def falsy_bool_def)
  from falsy_options_take_defaults [OF c] f
  have "connectionDelay self = 1000 \<and> maximumAttempts self = 25 \<and> port self = 6514
     \<and> program self = ''default'' \<and> host self = ''logs-01.loggly.com''
     \<and> hostname self = ''web1'' \<and> pid self = ''4242'' \<and> attemptsBeforeDecay self = 5
     \<and> maxDelayBetweenReconnection self = 60000 \<and> tags self = []
     \<and> \<not> inlineMeta self \<and> \<not> handleExceptions self"
    by (simp add: example_options_def no_options_def example_env_def dec.simps)
  with c f show ?thesis by blast
qed

end
